theory Spec2Isabelle
  imports Complex_Main "HOL-Library.AList"
begin

section \<open>Shared conventions\<close>

text \<open>
  The development embeds two modules of psiaudio: \<^verbatim>\<open>psiaudio/pipeline.py\<close> (epoch capture)
  and \<^verbatim>\<open>psiaudio/queue.py\<close> (stimulus queues and sample dispatch).

  Times in seconds and the sampling rate are rationals (the source uses floats; rounding
  error of floating point arithmetic is outside the model). Sample counts and sample
  indices are Python integers, hence \<open>int\<close>. Arrays are one dimensional: a \<open>sample list\<close>
  whose length is \<^verbatim>\<open>data.shape[-1]\<close>. Token keys are UUIDs in the source; only their
  equality is used, so they are natural numbers here.
\<close>


type_synonym sample = rat
type_synonym key = nat

text \<open>
  The argument of a \<^verbatim>\<open>KeyError\<close>: a key missing from the dictionary \<^verbatim>\<open>_data\<close>, the message
  \<^verbatim>\<open>'{} not in queue'.format(key)\<close>, or a field name missing from the keywords of
  \<^verbatim>\<open>str.format\<close>.
\<close>

datatype key_error = MissingKey key | NotInQueue key | MissingField string

datatype error =
    QueueEmptyError
  | KeyError key_error
  | ValueError string
  | TypeError string
  | IndexError
  | ZeroDivisionError
  | StopIteration

text \<open>Python's \<^verbatim>\<open>round(x)\<close> with one argument: to the nearest integer, ties to even.\<close>

definition py_round :: "rat \<Rightarrow> int" where
  "py_round x =
     (let f = \<lfloor>x\<rfloor>; r = x - of_int f
      in if r < 1 / 2 then f else if 1 / 2 < r then f + 1 else if even f then f else f + 1)"

text \<open>
  Python's slice \<^verbatim>\<open>xs[a:b]\<close>: a negative bound counts from the end, and both bounds are
  clamped to the length.
\<close>

definition slice_index :: "nat \<Rightarrow> int \<Rightarrow> nat" where
  "slice_index n i = (if i < 0 then nat (max 0 (int n + i)) else min n (nat i))"

definition py_slice :: "'a list \<Rightarrow> int \<Rightarrow> int \<Rightarrow> 'a list" where
  "py_slice xs a b =
     (let lo = slice_index (length xs) a; hi = slice_index (length xs) b
      in take (hi - lo) (drop lo xs))"

text \<open>
  The record of a dispatched trial (the \<^verbatim>\<open>info\<close> dictionary built by \<^verbatim>\<open>next_trial\<close>), which
  is also the epoch request read by \<^verbatim>\<open>extract_epochs\<close>, and that request after
  \<^verbatim>\<open>extract_epochs\<close> has added \<^verbatim>\<open>poststim_time\<close> and \<^verbatim>\<open>epoch_size\<close> to it.
\<close>

record info =
  t0 :: rat
  duration :: rat
  key :: key
  metadata :: string
  decrement :: bool

record epoch_info = info +
  poststim_time :: rat
  epoch_size :: rat

section \<open>pipeline.py: capture_epoch\<close>

text \<open>
  The coroutine \<^verbatim>\<open>capture_epoch\<close> keeps \<^verbatim>\<open>epoch_t0\<close>, \<^verbatim>\<open>epoch_samples\<close> and
  \<^verbatim>\<open>accumulated_data\<close> between two \<^verbatim>\<open>yield\<close>s; \<^verbatim>\<open>info\<close> is fixed. One \<^verbatim>\<open>send\<close> either
  leaves the coroutine waiting at the \<^verbatim>\<open>yield\<close> (\<open>Running\<close>) or ends it after one call of
  the callback (\<open>Stopped\<close>, the \<^verbatim>\<open>StopIteration\<close> seen by the sender), where the callback's
  argument is the dictionary \<^verbatim>\<open>{'signal': ..., 'info': ...}\<close>.
\<close>

record capture =
  epoch_t0 :: int
  epoch_samples :: int
  accumulated_data :: "sample list list"
  capture_info :: epoch_info

record epoch =
  signal :: "sample list option"
  einfo :: epoch_info

datatype sent = Running capture | Stopped epoch

type_synonym chunk = "int \<times> sample list"

definition capture_epoch :: "int \<Rightarrow> int \<Rightarrow> epoch_info \<Rightarrow> capture" where
  "capture_epoch t n i =
     \<lparr>epoch_t0 = t, epoch_samples = n, accumulated_data = [], capture_info = i\<rparr>"

definition capture_epoch_send :: "capture \<Rightarrow> chunk \<Rightarrow> sent" where
  "capture_epoch_send c ch =
     (let tlb = fst ch; data = snd ch; samples = int (length data)
      in if epoch_t0 c < tlb then
           Stopped \<lparr>signal = None, einfo = capture_info c\<rparr>
         else if epoch_t0 c \<le> tlb + samples then
           (let i = epoch_t0 c - tlb;
                d = min (epoch_samples c) (samples - i);
                acc = accumulated_data c @ [py_slice data i (i + d)];
                c' = c\<lparr>epoch_t0 := epoch_t0 c + d,
                       epoch_samples := epoch_samples c - d,
                       accumulated_data := acc\<rparr>
            in if epoch_samples c' = 0 then
                 Stopped \<lparr>signal = Some (concat acc), einfo = capture_info c\<rparr>
               else Running c')
         else Running c)"

text \<open>Sending successive chunks until the coroutine stops (later sends are not made).\<close>

fun send_all :: "capture \<Rightarrow> chunk list \<Rightarrow> sent" where
  "send_all c [] = Running c"
| "send_all c (ch # chs) =
     (case capture_epoch_send c ch of
        Running c' \<Rightarrow> send_all c' chs
      | Stopped e \<Rightarrow> Stopped e)"

section \<open>pipeline.py: extract_epochs\<close>

text \<open>
  The arguments of \<^verbatim>\<open>extract_epochs\<close> that stay fixed (\<^verbatim>\<open>fs\<close>, \<^verbatim>\<open>epoch_size\<close>,
  \<^verbatim>\<open>poststim_time\<close>, \<^verbatim>\<open>buffer_size\<close>), and the local variables it keeps from one \<^verbatim>\<open>yield\<close>
  to the next. \<^verbatim>\<open>epoch_coroutines\<close> is a dictionary in insertion order, keyed by
  \<^verbatim>\<open>(info['t0'], info['key'])\<close>; \<open>empty_queue_cb\<close> tells whether the callback is still set.
  A falsy \<^verbatim>\<open>epoch_size\<close> is \<open>0\<close>.
\<close>

record extract_args =
  arg_fs :: rat
  arg_epoch_size :: rat
  arg_poststim_time :: rat
  arg_buffer_size :: rat

type_synonym coroutines = "((rat \<times> key) \<times> capture) list"

record extractor =
  tlb :: int
  epoch_coroutines :: coroutines
  prior_samples :: "chunk list"
  empty_queue_cb :: bool

definition extract_epochs :: "bool \<Rightarrow> extractor" where
  "extract_epochs cb = \<lparr>tlb = 0, epoch_coroutines = [], prior_samples = [], empty_queue_cb = cb\<rparr>"

text \<open>The loop \<^verbatim>\<open>while removed_queue\<close>: returns the coroutines and the \<^verbatim>\<open>skip\<close> list.\<close>

fun removed_loop :: "info list \<Rightarrow> coroutines \<Rightarrow> (rat \<times> key) list \<Rightarrow> coroutines \<times> (rat \<times> key) list" where
  "removed_loop [] cs skip = (cs, skip)"
| "removed_loop (i # rq) cs skip =
     (let md = (info.t0 i, info.key i)
      in if map_of cs md = None then removed_loop rq cs (skip @ [md])
         else removed_loop rq (AList.delete md cs) skip)"

text \<open>
  The loop over \<^verbatim>\<open>list(epoch_coroutines.items())\<close>: the first argument is that copy, the
  second the dictionary, the third the list \<^verbatim>\<open>epochs\<close> the callbacks append to.
\<close>

fun send_loop :: "chunk \<Rightarrow> coroutines \<Rightarrow> coroutines \<Rightarrow> epoch list \<Rightarrow> coroutines \<times> epoch list" where
  "send_loop ch [] cs epochs = (cs, epochs)"
| "send_loop ch ((k, c) # items) cs epochs =
     (case capture_epoch_send c ch of
        Running c' \<Rightarrow> send_loop ch items (AList.update k c' cs) epochs
      | Stopped e \<Rightarrow> send_loop ch items (AList.delete k cs) (epochs @ [e]))"

text \<open>The loop \<^verbatim>\<open>while queue\<close>, with the historical capture from \<^verbatim>\<open>prior_samples\<close>.\<close>

fun queue_loop ::
  "extract_args \<Rightarrow> chunk list \<Rightarrow> info list \<Rightarrow> coroutines \<Rightarrow> (rat \<times> key) list \<Rightarrow> epoch list
   \<Rightarrow> error + coroutines \<times> epoch list" where
  "queue_loop a prior [] cs skip epochs = Inr (cs, epochs)"
| "queue_loop a prior (i # q) cs skip epochs =
     (let k = (info.t0 i, info.key i)
      in if k \<in> set skip then queue_loop a prior q cs (remove1 k skip) epochs
         else
           (let t = py_round (info.t0 i * arg_fs a);
                i' = \<lparr>t0 = info.t0 i, duration = info.duration i, key = info.key i,
                      metadata = info.metadata i, decrement = info.decrement i,
                      poststim_time = arg_poststim_time a,
                      epoch_size = (if arg_epoch_size a \<noteq> 0 then arg_epoch_size a
                                    else info.duration i)\<rparr>;
                total_epoch_size = epoch_size i' + arg_poststim_time a;
                n = py_round (total_epoch_size * arg_fs a)
            in case send_all (capture_epoch t n i') prior of
                 Stopped e \<Rightarrow> queue_loop a prior q cs skip (epochs @ [e])
               | Running c \<Rightarrow>
                   if map_of cs k \<noteq> None then Inl (ValueError ''Duplicate epochs not supported'')
                   else queue_loop a prior q (AList.update k c cs) skip epochs))"

text \<open>
  The last loop discards cached chunks from the front; \<^verbatim>\<open>prior_samples[0]\<close> on an empty
  list raises \<^verbatim>\<open>IndexError\<close>. The first argument is \<^verbatim>\<open>tlb - buffer_samples\<close>.
\<close>

fun discard_old :: "int \<Rightarrow> chunk list \<Rightarrow> error + chunk list" where
  "discard_old b [] = Inl IndexError"
| "discard_old b (oldest_samples # rest) =
     (let tub = fst oldest_samples + int (length (snd oldest_samples))
      in if tub < b then discard_old b rest else Inr (oldest_samples # rest))"

text \<open>
  One iteration of the main loop: \<^verbatim>\<open>data\<close> is the value sent to the coroutine,
  \<open>removed_queue\<close> and \<open>queue\<close> are the contents of the two deques at that moment (both are
  emptied). The result holds the new state, the list handed to \<^verbatim>\<open>target\<close> (if it was called)
  and whether \<^verbatim>\<open>empty_queue_cb\<close> was called.
\<close>

definition extract_epochs_send ::
  "extract_args \<Rightarrow> extractor \<Rightarrow> sample list \<times> info list \<times> info list
   \<Rightarrow> error + extractor \<times> epoch list option \<times> bool" where
  "extract_epochs_send a x inp =
     (let data = fst inp; removed_queue = fst (snd inp); queue = snd (snd inp);
          buffer_samples = py_round (arg_buffer_size a * arg_fs a);
          prior = prior_samples x @ [(tlb x, data)];
          (cs1, skip) = removed_loop removed_queue (epoch_coroutines x) [];
          (cs2, epochs) = send_loop (tlb x, data) cs1 cs1 []
      in case queue_loop a prior queue cs2 skip epochs of
           Inl e \<Rightarrow> Inl e
         | Inr (cs3, epochs') \<Rightarrow>
             (let tlb' = tlb x + int (length data)
              in case discard_old (tlb' - buffer_samples) prior of
                   Inl e \<Rightarrow> Inl e
                 | Inr prior' \<Rightarrow>
                     (let fire = (cs3 = [] \<and> empty_queue_cb x)
                      in Inr (\<lparr>tlb = tlb', epoch_coroutines = cs3, prior_samples = prior',
                               empty_queue_cb = (empty_queue_cb x \<and> \<not> fire)\<rparr>,
                              (if epochs' \<noteq> [] then Some epochs' else None), fire))))"

text \<open>Successive sends; the exception of one send ends the coroutine.\<close>

fun extract_epochs_run ::
  "extract_args \<Rightarrow> extractor \<Rightarrow> (sample list \<times> info list \<times> info list) list
   \<Rightarrow> error + extractor \<times> (epoch list option \<times> bool) list" where
  "extract_epochs_run a x [] = Inr (x, [])"
| "extract_epochs_run a x (inp # inps) =
     (case extract_epochs_send a x inp of
        Inl e \<Rightarrow> Inl e
      | Inr (x', out) \<Rightarrow>
          (case extract_epochs_run a x' inps of
             Inl e \<Rightarrow> Inl e
           | Inr (x'', outs) \<Rightarrow> Inr (x'', out # outs)))"

section \<open>queue.py: tokens and queue state\<close>

text \<open>
  An argument on which the source asks \<^verbatim>\<open>np.iterable\<close> (or \<^verbatim>\<open>iter\<close>): a scalar or a
  sequence.
\<close>

datatype 'a arg = Scalar 'a | Sequence "'a list"

text \<open>
  The iterator made by \<^verbatim>\<open>as_iterator\<close>: \<^verbatim>\<open>itertools.cycle([x])\<close> for a scalar, \<^verbatim>\<open>iter(x)\<close>
  for a sequence, which is exhausted after its last item. \<^verbatim>\<open>None\<close> counts as \<open>0\<close>.
\<close>

datatype iterator = Cycle rat | Iter "rat list"

definition as_iterator :: "rat arg option \<Rightarrow> iterator" where
  "as_iterator x =
     (case (case x of None \<Rightarrow> Scalar 0 | Some y \<Rightarrow> y) of
        Sequence xs \<Rightarrow> Iter xs
      | Scalar v \<Rightarrow> Cycle v)"

fun next_item :: "iterator \<Rightarrow> error + rat \<times> iterator" where
  "next_item (Cycle v) = Inr (v, Cycle v)"
| "next_item (Iter []) = Inl StopIteration"
| "next_item (Iter (v # vs)) = Inr (v, Iter vs)"

text \<open>
  A token is the dictionary stored in \<^verbatim>\<open>_data\<close> by \<^verbatim>\<open>_add_source\<close>. Its source is an
  already generated waveform (an array); generator objects with \<^verbatim>\<open>reset\<close> and \<^verbatim>\<open>next\<close> are
  defined outside this module and are not modelled.
\<close>

record token =
  source :: "sample list"
  trials :: int
  requested_trials :: int
  delays :: iterator
  duration :: rat
  metadata :: string

text \<open>
  A call of \<^verbatim>\<open>_notify(event, info)\<close>, as every callback connected to that event receives it.
\<close>

datatype event = Added info | Removed info | Decrement key

text \<open>The queue classes that are modelled, by their \<^verbatim>\<open>next_key\<close> and \<^verbatim>\<open>decrement_key\<close>.\<close>

datatype policy = FIFOSignalQueue | InterleavedFIFOSignalQueue

text \<open>
  The attributes of a queue object. \<open>notified\<close> records the calls of \<^verbatim>\<open>_notify\<close> in order
  (in place of the callbacks in \<^verbatim>\<open>_notifiers\<close>); \<open>uuid_count\<close> counts the keys generated so far,
  so that \<^verbatim>\<open>uuid.uuid4()\<close> returns a key never returned before. \<open>self_i\<close> and
  \<open>self_complete\<close> belong to the interleaved queue only. \<^verbatim>\<open>_data\<close> is a dictionary in
  insertion order.
\<close>

record queue =
  policy :: policy
  self_delay_samples :: int
  self_data :: "(key \<times> token) list"
  self_ordering :: "key list"
  self_source :: "sample list option"
  self_samples :: int
  notified :: "event list"
  self_paused :: bool
  self_empty :: bool
  self_fs :: rat
  self_t0 :: rat
  self_generated :: "info list"
  self_i :: int
  self_complete :: bool
  uuid_count :: nat

definition init :: "policy \<Rightarrow> rat \<Rightarrow> queue" where
  "init p fs =
     \<lparr>policy = p, self_delay_samples = 0, self_data = [], self_ordering = [],
      self_source = None, self_samples = 0, notified = [], self_paused = False,
      self_empty = False, self_fs = fs, self_t0 = 0, self_generated = [],
      self_i = - 1, self_complete = False, uuid_count = 0\<rparr>"

definition notify :: "event \<Rightarrow> queue \<Rightarrow> queue" where
  "notify ev q = q\<lparr>notified := notified q @ [ev]\<rparr>"

text \<open>\<^verbatim>\<open>self._data[key]\<close> and \<^verbatim>\<open>self._data[key]['trials'] += n\<close>.\<close>

definition data_get :: "queue \<Rightarrow> key \<Rightarrow> error + token" where
  "data_get q k =
     (case map_of (self_data q) k of
        None \<Rightarrow> Inl (KeyError (MissingKey k))
      | Some d \<Rightarrow> Inr d)"

definition add_trials :: "queue \<Rightarrow> key \<Rightarrow> int \<Rightarrow> error + queue" where
  "add_trials q k n =
     (case data_get q k of
        Inl e \<Rightarrow> Inl e
      | Inr d \<Rightarrow> Inr (q\<lparr>self_data := AList.update k (d\<lparr>trials := trials d + n\<rparr>) (self_data q)\<rparr>))"

definition is_empty :: "queue \<Rightarrow> bool" where
  "is_empty q = self_empty q"

definition remaining_trials :: "queue \<Rightarrow> key \<Rightarrow> error + int" where
  "remaining_trials q k = (case data_get q k of Inl e \<Rightarrow> Inl e | Inr d \<Rightarrow> Inr (trials d))"

section \<open>queue.py: rewind, pause, cancel, requeue, resume\<close>

text \<open>
  \<^verbatim>\<open>rewind_samples\<close> and \<^verbatim>\<open>resume\<close> first log \<^verbatim>\<open>get_ts()\<close>, which divides by \<^verbatim>\<open>_fs\<close>.
\<close>

definition rewind_samples :: "queue \<Rightarrow> rat \<Rightarrow> error + queue" where
  "rewind_samples q t =
     (if self_fs q = 0 then Inl ZeroDivisionError
      else
        (let t_samples = py_round (t * self_fs q);
             t0_samples = py_round (self_t0 q * self_fs q);
             new_sample = t_samples - t0_samples
         in if new_sample > self_samples q then
              Inl (ValueError ''Cannot rewind past last sample generated'')
            else Inr (q\<lparr>self_samples := t_samples - t0_samples\<rparr>)))"

definition cancel :: "queue \<Rightarrow> rat \<Rightarrow> rat \<Rightarrow> error + queue" where
  "cancel q t delay =
     (let removed = filter (\<lambda>i. info.t0 i + info.duration i > t) (rev (self_generated q));
          q1 = q\<lparr>notified := notified q @ map Removed removed\<rparr>
      in case (case self_source q1 of
                 None \<Rightarrow> Inr q1
               | Some w \<Rightarrow>
                   (if self_generated q1 = [] then Inl IndexError
                    else
                      (let i = last (self_generated q1)
                       in case (if info.decrement i then add_trials q1 (info.key i) 1
                                else Inr q1) of
                            Inl e \<Rightarrow> Inl e
                          | Inr q2 \<Rightarrow> Inr (q2\<lparr>self_source := None\<rparr>)))) of
           Inl e \<Rightarrow> Inl e
         | Inr q3 \<Rightarrow> Inr (q3\<lparr>self_delay_samples := py_round (delay * self_fs q3)\<rparr>))"

text \<open>\<^verbatim>\<open>Counter(xs).items()\<close>: each distinct item, in order of first occurrence, with its count.\<close>

definition counter :: "'a list \<Rightarrow> ('a \<times> int) list" where
  "counter xs = map (\<lambda>x. (x, int (count_list xs x))) (rev (remdups (rev xs)))"

fun add_counts :: "queue \<Rightarrow> (key \<times> int) list \<Rightarrow> error + queue" where
  "add_counts q [] = Inr q"
| "add_counts q ((k, n) # kns) =
     (case add_trials q k n of Inl e \<Rightarrow> Inl e | Inr q' \<Rightarrow> add_counts q' kns)"

definition requeue :: "queue \<Rightarrow> rat \<Rightarrow> error + queue" where
  "requeue q t =
     (let to_requeue =
            map info.key
              (filter (\<lambda>i. \<not> info.t0 i + info.duration i \<le> t \<and> info.decrement i)
                 (rev (self_generated q)));
          q1 = q\<lparr>self_ordering :=
                   fold (\<lambda>k ks. if k \<notin> set ks then k # ks else ks)
                     to_requeue (self_ordering q)\<rparr>
      in add_counts q1 (counter to_requeue))"

definition pause :: "queue \<Rightarrow> rat option \<Rightarrow> error + queue" where
  "pause q t =
     (let q1 = q\<lparr>self_paused := True\<rparr>
      in case t of
           None \<Rightarrow> Inr q1
         | Some t' \<Rightarrow>
             (case cancel q1 t' 0 of
                Inl e \<Rightarrow> Inl e
              | Inr q2 \<Rightarrow>
                  (case requeue q2 t' of
                     Inl e \<Rightarrow> Inl e
                   | Inr q3 \<Rightarrow> rewind_samples q3 t')))"

definition resume :: "queue \<Rightarrow> rat option \<Rightarrow> error + queue" where
  "resume q t =
     (if self_fs q = 0 then Inl ZeroDivisionError
      else
        (case (case t of None \<Rightarrow> Inr q | Some t' \<Rightarrow> rewind_samples q t') of
           Inl e \<Rightarrow> Inl e
         | Inr q1 \<Rightarrow> Inr (q1\<lparr>self_paused := False\<rparr>)))"

section \<open>queue.py: adding tokens\<close>

text \<open>Python's true division \<^verbatim>\<open>a / b\<close>.\<close>

definition py_div :: "rat \<Rightarrow> rat \<Rightarrow> error + rat" where
  "py_div a b = (if b = 0 then Inl ZeroDivisionError else Inr (a / b))"

definition uuid4 :: "queue \<Rightarrow> key \<times> queue" where
  "uuid4 q = (uuid_count q, q\<lparr>uuid_count := Suc (uuid_count q)\<rparr>)"

definition add_source ::
  "queue \<Rightarrow> sample list \<Rightarrow> int \<Rightarrow> rat arg option \<Rightarrow> rat option \<Rightarrow> string \<Rightarrow> error + key \<times> queue" where
  "add_source q src n dl dur md =
     (let (k, q1) = uuid4 q
      in case (case dur of
                 None \<Rightarrow> py_div (of_nat (length src)) (self_fs q1)
               | Some d \<Rightarrow> Inr d) of
           Inl e \<Rightarrow> Inl e
         | Inr d \<Rightarrow>
             (let data = \<lparr>source = src, trials = n, requested_trials = n,
                          delays = as_iterator dl, duration = d, metadata = md\<rparr>
              in Inr (k, q1\<lparr>self_data := AList.update k data (self_data q1)\<rparr>)))"

text \<open>
  \<^verbatim>\<open>insert\<close> calls \<^verbatim>\<open>self._ordering.insert(k)\<close>. \<^verbatim>\<open>list.insert\<close> takes an index and an
  object, so the call with one argument raises \<^verbatim>\<open>TypeError\<close>, after \<^verbatim>\<open>_add_source\<close> has
  run.
\<close>

definition list_insert_one_argument :: "key list \<Rightarrow> key \<Rightarrow> error + key list" where
  "list_insert_one_argument xs k = Inl (TypeError ''insert expected 2 arguments, got 1'')"

definition insert_source ::
  "queue \<Rightarrow> sample list \<Rightarrow> int \<Rightarrow> rat arg option \<Rightarrow> rat option \<Rightarrow> string \<Rightarrow> error + key \<times> queue" where
  "insert_source q src n dl dur md =
     (case add_source q src n dl dur md of
        Inl e \<Rightarrow> Inl e
      | Inr (k, q1) \<Rightarrow>
          (case list_insert_one_argument (self_ordering q1) k of
             Inl e \<Rightarrow> Inl e
           | Inr ks \<Rightarrow> Inr (k, q1\<lparr>self_ordering := ks\<rparr>)))"

definition append_source ::
  "queue \<Rightarrow> sample list \<Rightarrow> int \<Rightarrow> rat arg option \<Rightarrow> rat option \<Rightarrow> string \<Rightarrow> error + key \<times> queue" where
  "append_source q src n dl dur md =
     (case add_source q src n dl dur md of
        Inl e \<Rightarrow> Inl e
      | Inr (k, q1) \<Rightarrow> Inr (k, q1\<lparr>self_ordering := self_ordering q1 @ [k]\<rparr>))"

text \<open>
  \<^verbatim>\<open>str.format\<close> on a template cut into literal text and named replacement fields
  (\<^verbatim>\<open>{param}\<close>, \<^verbatim>\<open>{n}\<close>). A named field is looked up among the keyword arguments only;
  positional arguments serve numbered and empty fields, of which the template of
  \<^verbatim>\<open>extend\<close> has none.
\<close>

datatype piece = Lit string | Field string

fun str_format :: "piece list \<Rightarrow> string list \<Rightarrow> (string \<times> string) list \<Rightarrow> error + string" where
  "str_format [] args kwargs = Inr []"
| "str_format (Lit s # ps) args kwargs =
     (case str_format ps args kwargs of Inl e \<Rightarrow> Inl e | Inr r \<Rightarrow> Inr (s @ r))"
| "str_format (Field f # ps) args kwargs =
     (case map_of kwargs f of
        None \<Rightarrow> Inl (KeyError (MissingField f))
      | Some v \<Rightarrow> (case str_format ps args kwargs of Inl e \<Rightarrow> Inl e | Inr r \<Rightarrow> Inr (v @ r)))"

definition base_err :: "piece list" where
  "base_err = [Field ''param'', Lit '' must be a scalar or a sequence of length '', Field ''n'']"

text \<open>Decimal digits of a length, for the second argument of \<^verbatim>\<open>format\<close>.\<close>

fun str_nat :: "nat \<Rightarrow> string" where
  "str_nat n =
     (if n < 10 then [char_of (48 + n)]
      else str_nat (n div 10) @ [char_of (48 + n mod 10)])"

text \<open>
  One of the four checks of \<^verbatim>\<open>extend\<close>. A sequence of the wrong length reaches
  \<^verbatim>\<open>raise ValueError(base_err.format(name, n))\<close>, whose argument is evaluated first. The
  result lists the \<open>n\<close> items that \<^verbatim>\<open>zip\<close> later draws from the sequence or from
  \<^verbatim>\<open>itertools.cycle([x])\<close>.
\<close>

definition scalar_or_sequence :: "string \<Rightarrow> nat \<Rightarrow> 'a arg \<Rightarrow> error + 'a list" where
  "scalar_or_sequence name n x =
     (case x of
        Sequence xs \<Rightarrow>
          (if length xs \<noteq> n then
             (case str_format base_err [name, str_nat n] [] of
                Inl e \<Rightarrow> Inl e
              | Inr msg \<Rightarrow> Inl (ValueError msg))
           else Inr xs)
      | Scalar v \<Rightarrow> Inr (replicate n v))"

fun extend_loop ::
  "queue \<Rightarrow> (sample list \<times> int \<times> rat arg option \<times> rat option \<times> string) list \<Rightarrow> key list
   \<Rightarrow> error + key list \<times> queue" where
  "extend_loop q [] uuids = Inr (uuids, q)"
| "extend_loop q ((src, n, dl, dur, md) # rest) uuids =
     (case append_source q src n dl dur md of
        Inl e \<Rightarrow> Inl e
      | Inr (k, q') \<Rightarrow> extend_loop q' rest (uuids @ [k]))"

definition extend ::
  "queue \<Rightarrow> sample list list \<Rightarrow> int arg \<Rightarrow> rat arg option arg \<Rightarrow> rat option arg \<Rightarrow> string arg
   \<Rightarrow> error + key list \<times> queue" where
  "extend q sources ns dls durs mds =
     (let n = length sources
      in case scalar_or_sequence ''trials'' n ns of Inl e \<Rightarrow> Inl e | Inr ns' \<Rightarrow>
        (case scalar_or_sequence ''delays'' n dls of Inl e \<Rightarrow> Inl e | Inr dls' \<Rightarrow>
        (case scalar_or_sequence ''duration'' n durs of Inl e \<Rightarrow> Inl e | Inr durs' \<Rightarrow>
        (case scalar_or_sequence ''metadata'' n mds of Inl e \<Rightarrow> Inl e | Inr mds' \<Rightarrow>
           extend_loop q (zip sources (zip ns' (zip dls' (zip durs' mds')))) []))))"

section \<open>queue.py: choosing and decrementing keys\<close>

definition next_key :: "queue \<Rightarrow> error + key \<times> queue" where
  "next_key q =
     (case policy q of
        FIFOSignalQueue \<Rightarrow>
          (if length (self_ordering q) = 0 then Inl QueueEmptyError
           else Inr (self_ordering q ! 0, q))
      | InterleavedFIFOSignalQueue \<Rightarrow>
          (if self_complete q then Inl QueueEmptyError
           else if length (self_ordering q) = 0 then Inl ZeroDivisionError
           else
             (let i = (self_i q + 1) mod int (length (self_ordering q))
              in Inr (self_ordering q ! nat i, q\<lparr>self_i := i\<rparr>))))"

text \<open>\<^verbatim>\<open>self._ordering.remove(key)\<close> removes the first occurrence and raises if there is none.\<close>

definition remove_key :: "queue \<Rightarrow> key \<Rightarrow> error + queue" where
  "remove_key q k =
     (if k \<notin> set (self_ordering q) then Inl (ValueError ''list.remove(x): x not in list'')
      else Inr (q\<lparr>self_ordering := remove1 k (self_ordering q)\<rparr>))"

definition decrement_key :: "queue \<Rightarrow> key \<Rightarrow> int \<Rightarrow> error + bool \<times> queue" where
  "decrement_key q k n =
     (if k \<notin> set (self_ordering q) then Inl (KeyError (NotInQueue k))
      else
        (case add_trials q k (- n) of
           Inl e \<Rightarrow> Inl e
         | Inr q1 \<Rightarrow>
             (case policy q1 of
                FIFOSignalQueue \<Rightarrow>
                  (case data_get q1 k of
                     Inl e \<Rightarrow> Inl e
                   | Inr d \<Rightarrow>
                       (if trials d \<le> 0 then
                          (case remove_key q1 k of
                             Inl e \<Rightarrow> Inl e
                           | Inr q2 \<Rightarrow> Inr (True, q2))
                        else Inr (False, notify (Decrement k) q1)))
              | InterleavedFIFOSignalQueue \<Rightarrow>
                  (if list_ex (\<lambda>kd. trials (snd kd) > 0) (self_data q1) then Inr (False, q1)
                   else Inr (True, q1\<lparr>self_complete := True\<rparr>)))))"

definition pop_key :: "queue \<Rightarrow> key \<Rightarrow> bool \<Rightarrow> error + token \<times> queue" where
  "pop_key q k dec =
     (case data_get q k of
        Inl e \<Rightarrow> Inl e
      | Inr d \<Rightarrow>
          (if dec then
             (case decrement_key q k 1 of
                Inl e \<Rightarrow> Inl e
              | Inr (exhausted, q1) \<Rightarrow>
                  (case data_get q1 k of Inl e \<Rightarrow> Inl e | Inr d1 \<Rightarrow> Inr (d1, q1)))
           else Inr (d, q)))"

definition pop_next :: "queue \<Rightarrow> bool \<Rightarrow> error + (key \<times> token) \<times> queue" where
  "pop_next q dec =
     (case next_key q of
        Inl e \<Rightarrow> Inl e
      | Inr (k, q1) \<Rightarrow>
          (case pop_key q1 k dec of
             Inl e \<Rightarrow> Inl e
           | Inr (d, q2) \<Rightarrow> Inr ((k, d), q2)))"

section \<open>queue.py: dispatch of samples\<close>

text \<open>\<^verbatim>\<open>np.zeros(n)\<close> for an integer \<^verbatim>\<open>n\<close>.\<close>

definition zeros :: "int \<Rightarrow> error + sample list" where
  "zeros n =
     (if n < 0 then Inl (ValueError ''negative dimensions are not allowed'')
      else Inr (replicate (nat n) 0))"

text \<open>
  \<^verbatim>\<open>next_trial\<close>. An array has no \<^verbatim>\<open>reset\<close>, so the \<^verbatim>\<open>AttributeError\<close> branch is taken and
  \<^verbatim>\<open>_get_samples\<close> is \<^verbatim>\<open>_get_samples_waveform\<close>. \<^verbatim>\<open>next(data['delays'])\<close> advances the
  iterator kept in the token.
\<close>

definition next_trial :: "queue \<Rightarrow> bool \<Rightarrow> error + queue" where
  "next_trial q dec =
     (case pop_next q dec of
        Inl e \<Rightarrow> Inl e
      | Inr ((k, data), q1) \<Rightarrow>
          (let q2 = q1\<lparr>self_source := Some (source data)\<rparr>
           in case next_item (delays data) of
                Inl e \<Rightarrow> Inl e
              | Inr (delay, it) \<Rightarrow>
                  (let q3 = q2\<lparr>self_data := AList.update k (data\<lparr>delays := it\<rparr>) (self_data q2),
                                self_delay_samples := py_round (delay * self_fs q2)\<rparr>
                   in if self_delay_samples q3 < 0 then
                        Inl (ValueError ''Invalid option for delay samples'')
                      else
                        (case py_div (of_int (self_samples q3)) (self_fs q3) of
                           Inl e \<Rightarrow> Inl e
                         | Inr ts \<Rightarrow>
                             (let i = \<lparr>t0 = self_t0 q3 + ts, duration = token.duration data,
                                       key = k, metadata = token.metadata data,
                                       decrement = dec\<rparr>
                              in Inr (notify (Added i)
                                        (q3\<lparr>self_generated := self_generated q3 @ [i]\<rparr>)))))))"

text \<open>\<^verbatim>\<open>_get_samples_waveform\<close>; \<^verbatim>\<open>len(None)\<close> raises \<^verbatim>\<open>TypeError\<close>.\<close>

definition get_samples_waveform :: "queue \<Rightarrow> int \<Rightarrow> error + sample list \<times> queue" where
  "get_samples_waveform q samples =
     (case self_source q of
        None \<Rightarrow> Inl (TypeError ''object of type NoneType has no len()'')
      | Some src \<Rightarrow>
          (if samples > int (length src) then Inr (src, q\<lparr>self_source := None\<rparr>)
           else Inr (py_slice src 0 samples,
                     q\<lparr>self_source := Some (py_slice src samples (int (length src)))\<rparr>)))"

text \<open>\<^verbatim>\<open>_pop_buffer\<close>: one segment of at most \<^verbatim>\<open>samples\<close> samples.\<close>

definition pop_buffer_segment :: "queue \<Rightarrow> int \<Rightarrow> bool \<Rightarrow> error + sample list \<times> queue" where
  "pop_buffer_segment q samples dec =
     (if self_paused q then
        (case zeros samples of Inl e \<Rightarrow> Inl e | Inr w \<Rightarrow> Inr (w, q))
      else if self_source q \<noteq> None then get_samples_waveform q samples
      else if self_delay_samples q > 0 then
        (let n = min (self_delay_samples q) samples
         in case zeros n of
              Inl e \<Rightarrow> Inl e
            | Inr w \<Rightarrow> Inr (w, q\<lparr>self_delay_samples := self_delay_samples q - n\<rparr>))
      else
        (case next_trial q dec of
           Inl e \<Rightarrow> Inl e
         | Inr q' \<Rightarrow> Inr ([], q')))"

text \<open>
  The \<^verbatim>\<open>try\<close> statement in the loop of \<^verbatim>\<open>pop_buffer\<close>. \<^verbatim>\<open>QueueEmptyError\<close> is raised by
  \<^verbatim>\<open>next_key\<close> before anything is assigned, so the handler runs in the state the segment
  started from.
\<close>

definition try_pop_buffer :: "queue \<Rightarrow> int \<Rightarrow> bool \<Rightarrow> error + sample list \<times> queue" where
  "try_pop_buffer q samples dec =
     (case pop_buffer_segment q samples dec of
        Inl QueueEmptyError \<Rightarrow>
          (case zeros samples of
             Inl e \<Rightarrow> Inl e
           | Inr w \<Rightarrow> Inr (w, q\<lparr>self_empty := True\<rparr>))
      | Inl e \<Rightarrow> Inl e
      | Inr r \<Rightarrow> Inr r)"

text \<open>
  The \<^verbatim>\<open>while samples > 0\<close> loop of \<^verbatim>\<open>pop_buffer\<close>. It need not end (a token with an
  empty waveform and no delay, popped without decrement, is set up again and again), so
  the result is an option: \<open>None\<close> when the loop runs forever.
\<close>

partial_function (option) pop_buffer_loop ::
  "queue \<Rightarrow> int \<Rightarrow> bool \<Rightarrow> sample list list \<Rightarrow> (error + sample list list \<times> queue) option" where
  "pop_buffer_loop q samples dec waveforms =
     (if samples > 0 then
        (case try_pop_buffer q samples dec of
           Inl e \<Rightarrow> Some (Inl e)
         | Inr (waveform, q') \<Rightarrow>
             pop_buffer_loop
               (q'\<lparr>self_samples := self_samples q' + int (length waveform)\<rparr>)
               (samples - int (length waveform)) dec (waveforms @ [waveform]))
      else Some (Inr (waveforms, q)))"

declare pop_buffer_loop.simps [code]

text \<open>\<^verbatim>\<open>np.concatenate\<close> of one dimensional arrays; an empty list of arrays is an error.\<close>

definition np_concatenate :: "sample list list \<Rightarrow> error + sample list" where
  "np_concatenate ws =
     (if ws = [] then Inl (ValueError ''need at least one array to concatenate'')
      else Inr (concat ws))"

definition pop_buffer :: "queue \<Rightarrow> int \<Rightarrow> bool \<Rightarrow> (error + sample list \<times> queue) option" where
  "pop_buffer q samples dec =
     (case pop_buffer_loop q samples dec [] of
        None \<Rightarrow> None
      | Some (Inl e) \<Rightarrow> Some (Inl e)
      | Some (Inr (waveforms, q')) \<Rightarrow>
          (case np_concatenate waveforms of
             Inl e \<Rightarrow> Some (Inl e)
           | Inr waveform \<Rightarrow> Some (Inr (waveform, q'))))"

section \<open>Iterations of the dispatch loop\<close>

text \<open>
  The states of the loop of \<^verbatim>\<open>pop_buffer\<close>: the queue, the samples still to produce and
  the waveforms collected so far. \<open>iterations dec a b\<close> holds when the loop, started in
  state \<open>a\<close>, is in state \<open>b\<close> after some number of iterations.
\<close>

inductive iterations ::
  "bool \<Rightarrow> queue \<times> int \<times> sample list list \<Rightarrow> queue \<times> int \<times> sample list list \<Rightarrow> bool"
  for dec :: bool and a :: "queue \<times> int \<times> sample list list" where
  start: "iterations dec a a"
| iteration: "iterations dec a (q, samples, waveforms) \<Longrightarrow> 0 < samples \<Longrightarrow>
     try_pop_buffer q samples dec = Inr (waveform, q') \<Longrightarrow>
     iterations dec a (q'\<lparr>self_samples := self_samples q' + int (length waveform)\<rparr>,
       samples - int (length waveform), waveforms @ [waveform])"

section \<open>Dispatch sessions\<close>

text \<open>
  A session is a sequence of calls made on one queue object. It ends at the first call
  that raises. Its result lists the buffers returned by the calls of \<^verbatim>\<open>pop_buffer\<close>.
\<close>

datatype call =
    PopBuffer int bool
  | Pause "rat option"
  | Resume "rat option"
  | Cancel rat rat
  | Requeue rat
  | RewindSamples rat
  | Append "sample list" int "rat arg option" "rat option" string

fun call_queue :: "queue \<Rightarrow> call \<Rightarrow> (error + sample list list \<times> queue) option" where
  "call_queue q (PopBuffer n dec) =
     (case pop_buffer q n dec of
        None \<Rightarrow> None
      | Some (Inl e) \<Rightarrow> Some (Inl e)
      | Some (Inr (w, q')) \<Rightarrow> Some (Inr ([w], q')))"
| "call_queue q (Pause t) =
     (case pause q t of Inl e \<Rightarrow> Some (Inl e) | Inr q' \<Rightarrow> Some (Inr ([], q')))"
| "call_queue q (Resume t) =
     (case resume q t of Inl e \<Rightarrow> Some (Inl e) | Inr q' \<Rightarrow> Some (Inr ([], q')))"
| "call_queue q (Cancel t delay) =
     (case cancel q t delay of Inl e \<Rightarrow> Some (Inl e) | Inr q' \<Rightarrow> Some (Inr ([], q')))"
| "call_queue q (Requeue t) =
     (case requeue q t of Inl e \<Rightarrow> Some (Inl e) | Inr q' \<Rightarrow> Some (Inr ([], q')))"
| "call_queue q (RewindSamples t) =
     (case rewind_samples q t of Inl e \<Rightarrow> Some (Inl e) | Inr q' \<Rightarrow> Some (Inr ([], q')))"
| "call_queue q (Append src n dl dur md) =
     (case append_source q src n dl dur md of
        Inl e \<Rightarrow> Some (Inl e)
      | Inr (k, q') \<Rightarrow> Some (Inr ([], q')))"

fun session :: "queue \<Rightarrow> call list \<Rightarrow> (error + sample list list \<times> queue) option" where
  "session q [] = Some (Inr ([], q))"
| "session q (c # cs) =
     (case call_queue q c of
        None \<Rightarrow> None
      | Some (Inl e) \<Rightarrow> Some (Inl e)
      | Some (Inr (ws, q')) \<Rightarrow>
          (case session q' cs of
             None \<Rightarrow> None
           | Some (Inl e) \<Rightarrow> Some (Inl e)
           | Some (Inr (ws', q'')) \<Rightarrow> Some (Inr (ws @ ws', q''))))"

text \<open>The \<^verbatim>\<open>info\<close> records passed to the listeners of the event \<^verbatim>\<open>'added'\<close>, in order.\<close>

fun added :: "event list \<Rightarrow> info list" where
  "added [] = []"
| "added (Added i # evs) = i # added evs"
| "added (ev # evs) = added evs"

section \<open>Chunk streams\<close>


definition chunk_end :: "chunk \<Rightarrow> int" where
  "chunk_end ch = fst ch + int (length (snd ch))"

definition buffer_ordered :: "extractor \<Rightarrow> bool" where
  "buffer_ordered x =
     (sorted (map chunk_end (prior_samples x)) \<and>
      list_all (\<lambda>ch. chunk_end ch \<le> tlb x) (prior_samples x))"

section \<open>Example objects\<close>

text \<open>
  A token of three samples with two trials and no delay; the first-in, first-out queue
  and the interleaved queue that \<^verbatim>\<open>append\<close> makes of it at a sampling rate of 1; an epoch
  request for samples 5 to 8.
\<close>

definition example_token :: token where
  "example_token =
     \<lparr>source = [1, 2, 3], trials = 2, requested_trials = 2, delays = Cycle 0,
      duration = 3, metadata = ''tone''\<rparr>"

definition example_fifo :: queue where
  "example_fifo =
     (init FIFOSignalQueue 1)\<lparr>self_data := [(0, example_token)], self_ordering := [0],
                              uuid_count := 1\<rparr>"

definition example_interleaved :: queue where
  "example_interleaved =
     (init InterleavedFIFOSignalQueue 1)\<lparr>self_data := [(0, example_token)],
                                         self_ordering := [0], uuid_count := 1\<rparr>"

text \<open>
  A first-in, first-out queue without tokens that is still playing the last three samples
  of a waveform.
\<close>

definition example_playing :: queue where
  "example_playing = (init FIFOSignalQueue 1)\<lparr>self_source := Some [7, 8, 9]\<rparr>"

definition example_info :: epoch_info where
  "example_info =
     \<lparr>t0 = 5, duration = 4, key = 0, metadata = ''tone'', decrement = True,
      poststim_time = 0, epoch_size = 4\<rparr>"

definition example_capture :: capture where
  "example_capture = capture_epoch 5 4 example_info"

text \<open>An extractor at a sampling rate of 1 that looks back four samples.\<close>

definition example_args :: extract_args where
  "example_args = \<lparr>arg_fs = 1, arg_epoch_size = 0, arg_poststim_time = 0, arg_buffer_size = 4\<rparr>"

section \<open>Properties of capture_epoch\<close>

lemma py_slice_nonneg:
  "0 \<le> a \<Longrightarrow> 0 \<le> b \<Longrightarrow> py_slice xs a b = take (nat b - nat a) (drop (nat a) xs)"
  by (cases "nat a \<le> length xs"; cases "nat b \<le> length xs")
     (auto simp: py_slice_def slice_index_def Let_def min_def)

lemma py_slice_from_end: "py_slice xs (int (length xs)) b = []"
  by (auto simp: py_slice_def slice_index_def Let_def)

text \<open>
  Claim C2. One chunk \<open>(lb, data)\<close> sent to a capture state \<open>c\<close> that has not stopped, with
  \<open>i = epoch_t0 c - lb\<close>, \<open>d = min (epoch_samples c) (len data - i)\<close> and \<open>slice = data[i:i+d]\<close>:
  \<^item> if the start is before the chunk, the state stops with \<^verbatim>\<open>{'signal': None, 'info': info}\<close>;
  \<^item> if the start is inside the chunk (its end included), the slice is appended, the start
    moves on by \<open>d\<close> and the remaining count drops by \<open>d\<close>; the state stops, with the
    concatenation of the slices, exactly when the remaining count reaches 0;
  \<^item> if the start is after the chunk, nothing changes;
  \<^item> for a remaining count that is not negative the slice is the \<open>d\<close> samples of the chunk
    from offset \<open>i\<close>;
  \<^item> if the start is the end of the chunk, the slice is empty, and with samples still to
    take the next chunk is read from its offset 0.
\<close>

theorem capture_epoch_send_feed:
  "(let i = epoch_t0 c - lb;
        d = min (epoch_samples c) (int (length data) - i);
        slice = py_slice data i (i + d)
    in (epoch_t0 c < lb \<longrightarrow>
          capture_epoch_send c (lb, data) = Stopped \<lparr>signal = None, einfo = capture_info c\<rparr>)
     \<and> (lb \<le> epoch_t0 c \<and> epoch_t0 c \<le> lb + int (length data) \<and> epoch_samples c - d \<noteq> 0 \<longrightarrow>
          capture_epoch_send c (lb, data) =
            Running (c\<lparr>epoch_t0 := epoch_t0 c + d, epoch_samples := epoch_samples c - d,
                       accumulated_data := accumulated_data c @ [slice]\<rparr>))
     \<and> (lb \<le> epoch_t0 c \<and> epoch_t0 c \<le> lb + int (length data) \<and> epoch_samples c - d = 0 \<longrightarrow>
          capture_epoch_send c (lb, data) =
            Stopped \<lparr>signal = Some (concat (accumulated_data c) @ slice),
                     einfo = capture_info c\<rparr>)
     \<and> (lb + int (length data) < epoch_t0 c \<longrightarrow> capture_epoch_send c (lb, data) = Running c)
     \<and> (lb \<le> epoch_t0 c \<and> epoch_t0 c \<le> lb + int (length data) \<and> 0 \<le> epoch_samples c \<longrightarrow>
          slice = take (nat d) (drop (nat i) data))
     \<and> (epoch_t0 c = lb + int (length data) \<longrightarrow> slice = [])
     \<and> (epoch_t0 c = lb + int (length data) \<and> 0 < epoch_samples c \<longrightarrow>
          capture_epoch_send c (lb, data) =
            Running (c\<lparr>accumulated_data := accumulated_data c @ [[]]\<rparr>)
          \<and> (\<forall>data'. capture_epoch_send (c\<lparr>accumulated_data := accumulated_data c @ [[]]\<rparr>)
                        (lb + int (length data), data') =
                (if epoch_samples c \<le> int (length data') then
                   Stopped \<lparr>signal = Some (concat (accumulated_data c)
                                             @ take (nat (epoch_samples c)) data'),
                            einfo = capture_info c\<rparr>
                 else Running (c\<lparr>epoch_t0 := epoch_t0 c + int (length data'),
                                  epoch_samples := epoch_samples c - int (length data'),
                                  accumulated_data := accumulated_data c @ [[], data']\<rparr>)))))"
  apply (simp only: Let_def)
  apply (intro conjI impI allI)
  subgoal by (simp add: capture_epoch_send_def)
  subgoal by (simp add: capture_epoch_send_def Let_def)
  subgoal by (simp add: capture_epoch_send_def Let_def)
  subgoal by (simp add: capture_epoch_send_def Let_def)
  subgoal by (subst py_slice_nonneg) (auto simp: min_def nat_diff_distrib nat_add_distrib)
  subgoal by (simp add: py_slice_from_end)
  subgoal by (simp add: capture_epoch_send_def Let_def py_slice_from_end min_def)
  subgoal by (auto simp add: capture_epoch_send_def Let_def py_slice_nonneg min_def)
  done

theorem capture_epoch_send_feed_witness:
  "capture_epoch_send example_capture (10, [1, 2])
     = Stopped \<lparr>signal = None, einfo = example_info\<rparr>
   \<and> capture_epoch_send example_capture (0, [0, 1, 2, 3, 4, 5, 6])
     = Running (example_capture\<lparr>epoch_t0 := 7, epoch_samples := 2,
                                accumulated_data := [[5, 6]]\<rparr>)
   \<and> capture_epoch_send example_capture (0, [0, 1, 2, 3, 4, 5, 6, 7, 8, 9])
     = Stopped \<lparr>signal = Some [5, 6, 7, 8], einfo = example_info\<rparr>
   \<and> capture_epoch_send example_capture (0, [0, 1, 2]) = Running example_capture
   \<and> capture_epoch_send example_capture (0, [0, 1, 2, 3, 4])
     = Running (example_capture\<lparr>accumulated_data := [[]]\<rparr>)
   \<and> capture_epoch_send (example_capture\<lparr>accumulated_data := [[]]\<rparr>) (5, [5, 6, 7, 8, 9])
     = Stopped \<lparr>signal = Some [5, 6, 7, 8], einfo = example_info\<rparr>"
proof -
  have c: "epoch_t0 example_capture = 5" "epoch_samples example_capture = 4"
    "accumulated_data example_capture = []" "capture_info example_capture = example_info"
    by (simp_all add: example_capture_def capture_epoch_def)
  have 1: "capture_epoch_send example_capture (10, [1, 2])
     = Stopped \<lparr>signal = None, einfo = example_info\<rparr>"
    using capture_epoch_send_feed [of example_capture 10 "[1, 2]"]
    by (simp add: c Let_def)
  have 2: "capture_epoch_send example_capture (0, [0, 1, 2, 3, 4, 5, 6])
     = Running (example_capture\<lparr>epoch_t0 := 7, epoch_samples := 2,
                                accumulated_data := [[5, 6]]\<rparr>)"
    using capture_epoch_send_feed [of example_capture 0 "[0, 1, 2, 3, 4, 5, 6]"]
    by (simp add: c Let_def)
  have 3: "capture_epoch_send example_capture (0, [0, 1, 2, 3, 4, 5, 6, 7, 8, 9])
     = Stopped \<lparr>signal = Some [5, 6, 7, 8], einfo = example_info\<rparr>"
    using capture_epoch_send_feed [of example_capture 0 "[0, 1, 2, 3, 4, 5, 6, 7, 8, 9]"]
    by (simp add: c Let_def)
  have 4: "capture_epoch_send example_capture (0, [0, 1, 2]) = Running example_capture"
    using capture_epoch_send_feed [of example_capture 0 "[0, 1, 2]"]
    by (simp add: c Let_def)
  have 5: "capture_epoch_send example_capture (0, [0, 1, 2, 3, 4])
       = Running (example_capture\<lparr>accumulated_data := [[]]\<rparr>)
     \<and> capture_epoch_send (example_capture\<lparr>accumulated_data := [[]]\<rparr>) (5, [5, 6, 7, 8, 9])
       = Stopped \<lparr>signal = Some [5, 6, 7, 8], einfo = example_info\<rparr>"
    using capture_epoch_send_feed [of example_capture 0 "[0, 1, 2, 3, 4]"]
    by (simp add: c Let_def)
  show ?thesis using 1 2 3 4 5 by blast
qed

section \<open>Properties of capture_epoch over successive chunks\<close>




lemma take_drop_append_window:
  "length d \<le> i \<Longrightarrow> take n (drop i (d @ r)) = take n (drop (i - length d) r)"
  by simp




section \<open>Properties of extract_epochs\<close>

lemma discard_old_suffix:
  "discard_old b cs = Inr cs' \<Longrightarrow>
     (\<exists>pre. cs = pre @ cs') \<and> cs' \<noteq> [] \<and> b \<le> chunk_end (hd cs')"
proof (induction cs)
  case Nil
  then show ?case by simp
next
  case (Cons c cs)
  show ?case
  proof (cases "chunk_end c < b")
    case True
    with Cons.prems have "discard_old b cs = Inr cs'"
      by (simp add: chunk_end_def Let_def)
    from Cons.IH [OF this] show ?thesis
      by (metis append_Cons)
  next
    case False
    with Cons.prems have "cs' = c # cs"
      by (simp add: chunk_end_def Let_def)
    with False show ?thesis by auto
  qed
qed

lemma extract_epochs_send_buffer:
  assumes "extract_epochs_send a x (data, rq, qu) = Inr (x', out)"
  shows "tlb x' = tlb x + int (length data) \<and>
         discard_old (tlb x' - py_round (arg_buffer_size a * arg_fs a))
           (prior_samples x @ [(tlb x, data)]) = Inr (prior_samples x')"
  using assms
  by (auto simp: extract_epochs_send_def Let_def split: prod.splits sum.splits)

lemma sorted_bound_all:
  assumes "sorted (map chunk_end cs)" "cs \<noteq> []" "b \<le> chunk_end (hd cs)"
  shows "\<forall>ch \<in> set cs. b \<le> chunk_end ch"
  using assms by (cases cs) (auto intro: order_trans)

lemma extract_epochs_send_pruned:
  assumes s: "extract_epochs_send a x (data, rq, qu) = Inr (x', out)" and o: "buffer_ordered x"
  shows "buffer_ordered x' \<and>
         (\<forall>ch \<in> set (prior_samples x').
            tlb x' - py_round (arg_buffer_size a * arg_fs a) \<le> chunk_end ch)"
proof -
  let ?b = "tlb x' - py_round (arg_buffer_size a * arg_fs a)"
  let ?p = "prior_samples x @ [(tlb x, data)]"
  from extract_epochs_send_buffer [OF s]
  have t: "tlb x' = tlb x + int (length data)" and d: "discard_old ?b ?p = Inr (prior_samples x')"
    by blast+
  from discard_old_suffix [OF d] obtain pre where
    p: "?p = pre @ prior_samples x'" and ne: "prior_samples x' \<noteq> []"
    and h: "?b \<le> chunk_end (hd (prior_samples x'))"
    by blast
  from o have sp: "sorted (map chunk_end ?p)"
    by (auto simp: buffer_ordered_def sorted_append list_all_iff chunk_end_def)
  from o have ap: "\<forall>ch \<in> set ?p. chunk_end ch \<le> tlb x'"
    by (auto simp: buffer_ordered_def list_all_iff chunk_end_def t)
  from sp p have s': "sorted (map chunk_end (prior_samples x'))"
    by (simp add: sorted_append)
  from ap p have a': "\<forall>ch \<in> set (prior_samples x'). chunk_end ch \<le> tlb x'"
    by (metis Un_iff set_append)
  from s' a' have "buffer_ordered x'"
    by (simp add: buffer_ordered_def list_all_iff)
  moreover from sorted_bound_all [OF s' ne h]
  have "\<forall>ch \<in> set (prior_samples x'). ?b \<le> chunk_end ch" .
  ultimately show ?thesis by blast
qed

lemma extract_epochs_run_pruned:
  "extract_epochs_run a x inps = Inr (x', outs) \<Longrightarrow> buffer_ordered x \<Longrightarrow>
     (\<forall>ch \<in> set (prior_samples x).
        tlb x - py_round (arg_buffer_size a * arg_fs a) \<le> chunk_end ch) \<Longrightarrow>
     buffer_ordered x' \<and>
     (\<forall>ch \<in> set (prior_samples x').
        tlb x' - py_round (arg_buffer_size a * arg_fs a) \<le> chunk_end ch)"
proof (induction inps arbitrary: x outs)
  case Nil
  then show ?case by simp
next
  case (Cons inp inps)
  obtain data rq qu where inp: "inp = (data, rq, qu)"
    by (cases inp) auto
  from Cons.prems(1) obtain x1 out outs1 where
    s: "extract_epochs_send a x (data, rq, qu) = Inr (x1, out)" and
    r: "extract_epochs_run a x1 inps = Inr (x', outs1)"
    by (auto simp: inp split: sum.splits)
  from extract_epochs_send_pruned [OF s Cons.prems(2)] Cons.IH [OF r]
  show ?case by blast
qed

text \<open>
  Claim C4. After any sequence of chunks that \<^verbatim>\<open>extract_epochs\<close> has processed without
  raising, every chunk kept in \<^verbatim>\<open>prior_samples\<close> ends (its \<^verbatim>\<open>tlb\<close> plus its length) at or
  after \<^verbatim>\<open>tlb - round(buffer_size * fs)\<close>, for the current \<^verbatim>\<open>tlb\<close>.
\<close>

theorem lookback_buffer_pruned:
  "extract_epochs_run a (extract_epochs cb) inps = Inr (x, outs) \<Longrightarrow>
     \<forall>ch \<in> set (prior_samples x).
        tlb x - py_round (arg_buffer_size a * arg_fs a) \<le> fst ch + int (length (snd ch))"
  using extract_epochs_run_pruned [of a "extract_epochs cb" inps x outs]
  by (simp add: extract_epochs_def buffer_ordered_def chunk_end_def)

lemma example_buffer_samples: "py_round (arg_buffer_size example_args * arg_fs example_args) = 4"
  by (simp add: example_args_def py_round_def)

theorem lookback_buffer_pruned_witness:
  "extract_epochs_run example_args (extract_epochs True)
      [([0, 1, 2], [], []), ([3, 4, 5], [], []), ([6, 7, 8, 9], [], [])]
     = Inr (\<lparr>tlb = 10, epoch_coroutines = [],
             prior_samples = [(3, [3, 4, 5]), (6, [6, 7, 8, 9])], empty_queue_cb = False\<rparr>,
            [(None, True), (None, False), (None, False)])
   \<and> (10 :: int) - 4 \<le> 3 + int (length [3, 4, 5 :: rat])
   \<and> (10 :: int) - 4 \<le> 6 + int (length [6, 7, 8, 9 :: rat])"
proof -
  have r: "extract_epochs_run example_args (extract_epochs True)
      [([0, 1, 2], [], []), ([3, 4, 5], [], []), ([6, 7, 8, 9], [], [])]
     = Inr (\<lparr>tlb = 10, epoch_coroutines = [],
             prior_samples = [(3, [3, 4, 5]), (6, [6, 7, 8, 9])], empty_queue_cb = False\<rparr>,
            [(None, True), (None, False), (None, False)])"
    by (simp add: extract_epochs_send_def extract_epochs_def example_buffer_samples Let_def)
  from lookback_buffer_pruned [OF r] show ?thesis
    using r by (simp add: example_buffer_samples)
qed

section \<open>Properties of the queue operations\<close>

text \<open>
  Claim C8. \<^verbatim>\<open>insert\<close> is meant to store the token, put its key at the front of the
  ordering and return the key. The code never returns: every call of \<^verbatim>\<open>insert\<close> raises, at
  the latest in \<^verbatim>\<open>self._ordering.insert(k)\<close>; so does the call on a new queue with a
  waveform of three samples and one trial.
\<close>

theorem insert_source_raises:
  "isl (insert_source q src n dl dur md) \<and>
   insert_source (init FIFOSignalQueue 1) [1, 2, 3] 1 None None ''tone''
     = Inl (TypeError ''insert expected 2 arguments, got 1'')"
  by (simp add: insert_source_def list_insert_one_argument_def add_source_def uuid4_def
      py_div_def init_def split: sum.splits prod.splits option.splits)

text \<open>
  Claim C9. \<^verbatim>\<open>extend\<close> with two sources and a \<^verbatim>\<open>trials\<close> sequence of length one is meant to
  fail with \<^verbatim>\<open>ValueError('trials must be a scalar or a sequence of length 2')\<close>. The code
  fails while it formats that message: \<^verbatim>\<open>base_err.format('trials', n)\<close> passes no keyword
  for the field \<^verbatim>\<open>{param}\<close>, and the caller sees \<^verbatim>\<open>KeyError('param')\<close>.
\<close>

theorem extend_size_mismatch_key_error:
  "extend (init FIFOSignalQueue 1) [[1, 2, 3], [4]] (Sequence [1]) (Scalar None) (Scalar None)
     (Scalar ''tone'')
     = Inl (KeyError (MissingField ''param''))"
  by (simp add: extend_def scalar_or_sequence_def base_err_def)

text \<open>
  Claim C10. The \<^verbatim>\<open>decrement_key\<close> of \<^verbatim>\<open>AbstractSignalQueue\<close> (used by the first-in,
  first-out queue), called with a key that is in the ordering and in \<^verbatim>\<open>_data\<close>, returns; it
  takes \<open>n\<close> from the trials of the token and returns \<^verbatim>\<open>True\<close> exactly when none are left.
  When it returns \<^verbatim>\<open>True\<close> the key is removed from the ordering and no event is notified;
  when it returns \<^verbatim>\<open>False\<close> the ordering is unchanged and one \<^verbatim>\<open>'decrement'\<close> event for
  the key is notified.
\<close>

theorem decrement_key_fifo_notification:
  "policy q = FIFOSignalQueue \<Longrightarrow> k \<in> set (self_ordering q) \<Longrightarrow> data_get q k = Inr d \<Longrightarrow>
     \<exists>b q'. decrement_key q k n = Inr (b, q') \<and> b = (trials d - n \<le> 0) \<and>
        data_get q' k = Inr (d\<lparr>trials := trials d - n\<rparr>) \<and>
        (b \<longrightarrow> notified q' = notified q \<and> self_ordering q' = remove1 k (self_ordering q)) \<and>
        (\<not> b \<longrightarrow> notified q' = notified q @ [Decrement k] \<and> self_ordering q' = self_ordering q)"
  by (auto simp: decrement_key_def add_trials_def data_get_def remove_key_def notify_def
      update_conv' split: if_splits sum.splits option.splits)

theorem decrement_key_fifo_notification_witness:
  "policy example_fifo = FIFOSignalQueue \<and> 0 \<in> set (self_ordering example_fifo) \<and>
   data_get example_fifo 0 = Inr example_token \<and>
   (\<exists>q'. decrement_key example_fifo 0 1 = Inr (False, q') \<and> notified q' = [Decrement 0] \<and>
      self_ordering q' = [0]) \<and>
   (\<exists>q'. decrement_key example_fifo 0 2 = Inr (True, q') \<and> notified q' = [] \<and>
      self_ordering q' = [])"
proof -
  have h: "policy example_fifo = FIFOSignalQueue" "0 \<in> set (self_ordering example_fifo)"
    "data_get example_fifo 0 = Inr example_token"
    by (simp_all add: example_fifo_def init_def data_get_def)
  have e: "notified example_fifo = []" "self_ordering example_fifo = [0]"
    by (simp_all add: example_fifo_def init_def)
  have t: "trials example_token = 2"
    by (simp add: example_token_def)
  have a: "\<exists>q'. decrement_key example_fifo 0 1 = Inr (False, q') \<and> notified q' = [Decrement 0] \<and>
      self_ordering q' = [0]"
    using decrement_key_fifo_notification [OF h, of 1] by (auto simp: e t)
  have b: "\<exists>q'. decrement_key example_fifo 0 2 = Inr (True, q') \<and> notified q' = [] \<and>
      self_ordering q' = []"
    using decrement_key_fifo_notification [OF h, of 2] by (auto simp: e t)
  show ?thesis using h a b by blast
qed

section \<open>Properties of the dispatch loop\<close>

lemma pop_buffer_loop_rule:
  assumes r: "pop_buffer_loop q s dec ws = Some (Inr (ws', q'))"
    and i: "I q s ws"
    and step: "\<And>q s ws w q1. I q s ws \<Longrightarrow> 0 < s \<Longrightarrow> try_pop_buffer q s dec = Inr (w, q1) \<Longrightarrow>
      I (q1\<lparr>self_samples := self_samples q1 + int (length w)\<rparr>) (s - int (length w)) (ws @ [w])"
  shows "\<exists>s'. s' \<le> 0 \<and> I q' s' ws'"
proof -
  let ?Q = "\<lambda>q s d ws (y :: error + sample list list \<times> queue). d = dec \<longrightarrow> I q s ws \<longrightarrow>
    (\<forall>ws' q'. y = Inr (ws', q') \<longrightarrow> (\<exists>s'. s' \<le> 0 \<and> I q' s' ws'))"
  have "?Q q s dec ws (Inr (ws', q'))"
  proof (rule pop_buffer_loop.raw_induct [where P = ?Q, OF _ r])
    fix f q s d ws y
    assume IH: "\<And>q s d ws y. f q s d ws = Some y \<Longrightarrow> ?Q q s d ws y"
      and eq: "(if 0 < s then
                 (case try_pop_buffer q s d of
                    Inl e \<Rightarrow> Some (Inl e)
                  | Inr (waveform, q') \<Rightarrow>
                      f (q'\<lparr>self_samples := self_samples q' + int (length waveform)\<rparr>)
                        (s - int (length waveform)) d (ws @ [waveform]))
               else Some (Inr (ws, q))) = Some y"
    show "?Q q s d ws y"
    proof (intro impI allI)
      fix ws' q'
      assume d: "d = dec" and inv: "I q s ws" and y: "y = Inr (ws', q')"
      show "\<exists>s'. s' \<le> 0 \<and> I q' s' ws'"
      proof (cases "0 < s")
        case False
        with eq y have "ws' = ws" "q' = q" by simp_all
        with inv False show ?thesis by (intro exI [of _ s]) simp
      next
        case True
        with eq y obtain w q1 where t: "try_pop_buffer q s d = Inr (w, q1)"
          and c: "f (q1\<lparr>self_samples := self_samples q1 + int (length w)\<rparr>)
                    (s - int (length w)) d (ws @ [w]) = Some (Inr (ws', q'))"
          by (auto split: sum.splits)
        from step [OF inv True] t d
        have n: "I (q1\<lparr>self_samples := self_samples q1 + int (length w)\<rparr>) (s - int (length w)) (ws @ [w])"
          by simp
        from IH [OF c] have "d = dec \<longrightarrow>
            I (q1\<lparr>self_samples := self_samples q1 + int (length w)\<rparr>) (s - int (length w)) (ws @ [w]) \<longrightarrow>
            (\<exists>s'. s' \<le> 0 \<and> I q' s' ws')"
          by simp
        with n d show ?thesis by simp
      qed
    qed
  qed
  with i show ?thesis by simp
qed

lemma try_pop_buffer_not_empty_error:
  "0 < s \<Longrightarrow> try_pop_buffer q s dec \<noteq> Inl QueueEmptyError"
  by (auto simp: try_pop_buffer_def zeros_def split: sum.splits error.splits)

lemma pop_buffer_loop_not_empty_error:
  assumes r: "pop_buffer_loop q s dec ws = Some y"
  shows "y \<noteq> Inl QueueEmptyError"
proof (rule pop_buffer_loop.raw_induct [where P = "\<lambda>q s d ws y. y \<noteq> Inl QueueEmptyError", OF _ r])
  fix f q s d ws y
  assume IH: "\<And>q s d ws y. f q s d ws = Some y \<Longrightarrow> y \<noteq> Inl QueueEmptyError"
    and eq: "(if 0 < s then
               (case try_pop_buffer q s d of
                  Inl e \<Rightarrow> Some (Inl e)
                | Inr (waveform, q') \<Rightarrow>
                    f (q'\<lparr>self_samples := self_samples q' + int (length waveform)\<rparr>)
                      (s - int (length waveform)) d (ws @ [waveform]))
             else Some (Inr (ws, q))) = Some y"
  show "y \<noteq> Inl QueueEmptyError"
  proof (cases "0 < s")
    case False
    with eq show ?thesis by auto
  next
    case True
    show ?thesis
    proof (cases "try_pop_buffer q s d")
      case (Inl e)
      with eq True have "y = Inl e" by simp
      with Inl try_pop_buffer_not_empty_error [OF True, of q d] show ?thesis by auto
    next
      case (Inr r)
      obtain w q1 where "r = (w, q1)" by (cases r)
      with Inr eq True
      have "f (q1\<lparr>self_samples := self_samples q1 + int (length w)\<rparr>)
              (s - int (length w)) d (ws @ [w]) = Some y"
        by simp
      then show ?thesis by (rule IH)
    qed
  qed
qed

lemma add_trials_not_empty_error: "add_trials q k n \<noteq> Inl QueueEmptyError"
  by (simp add: add_trials_def data_get_def split: option.splits sum.splits)

lemma decrement_key_not_empty_error: "decrement_key q k n \<noteq> Inl QueueEmptyError"
proof (cases "add_trials q k (- n)")
  case (Inl e)
  with add_trials_not_empty_error [of q k "- n"] show ?thesis
    by (simp add: decrement_key_def)
next
  case (Inr q1)
  then show ?thesis
    by (simp add: decrement_key_def data_get_def remove_key_def
        split: policy.splits option.splits)
qed

lemma pop_key_not_empty_error: "pop_key q k dec \<noteq> Inl QueueEmptyError"
proof (cases "decrement_key q k 1")
  case (Inl e)
  with decrement_key_not_empty_error [of q k 1] show ?thesis
    by (simp add: pop_key_def data_get_def split: option.splits)
next
  case (Inr r)
  then show ?thesis
    by (cases r) (simp add: pop_key_def data_get_def split: option.splits)
qed

lemma pop_next_queue_empty:
  "pop_next q dec = Inl QueueEmptyError \<longleftrightarrow> next_key q = Inl QueueEmptyError"
proof (cases "next_key q")
  case (Inl e)
  then show ?thesis by (simp add: pop_next_def)
next
  case (Inr r)
  obtain k q1 where r: "r = (k, q1)" by (cases r)
  show ?thesis
  proof (cases "pop_key q1 k dec")
    case (Inl e)
    with pop_key_not_empty_error [of q1 k dec] Inr r show ?thesis
      by (simp add: pop_next_def)
  next
    case (Inr p)
    with \<open>next_key q = Inr r\<close> r show ?thesis
      by (cases p) (simp add: pop_next_def)
  qed
qed

lemma next_trial_queue_empty:
  "next_trial q dec = Inl QueueEmptyError \<longleftrightarrow> next_key q = Inl QueueEmptyError"
proof (cases "pop_next q dec")
  case (Inl e)
  with pop_next_queue_empty [of q dec] show ?thesis
    by (simp add: next_trial_def)
next
  case (Inr r)
  obtain k d q1 where r: "r = ((k, d), q1)" by (cases r) auto
  have "next_trial q dec \<noteq> Inl QueueEmptyError"
    using Inr r
    by (cases "delays d" rule: next_item.cases)
       (simp_all add: next_trial_def Let_def py_div_def)
  with Inr pop_next_queue_empty [of q dec] show ?thesis by simp
qed

lemma pop_buffer_segment_queue_empty:
  "pop_buffer_segment q n dec = Inl QueueEmptyError \<longleftrightarrow>
     (\<not> self_paused q \<and> self_source q = None \<and> \<not> 0 < self_delay_samples q \<and>
      next_key q = Inl QueueEmptyError)"
proof -
  have z: "\<And>m. zeros m \<noteq> Inl QueueEmptyError"
    by (simp add: zeros_def)
  have g: "self_source q \<noteq> None \<Longrightarrow> get_samples_waveform q n \<noteq> Inl QueueEmptyError"
    by (auto simp: get_samples_waveform_def split: if_splits)
  consider (p) "self_paused q"
    | (s) "\<not> self_paused q" "self_source q \<noteq> None"
    | (d) "\<not> self_paused q" "self_source q = None" "0 < self_delay_samples q"
    | (t) "\<not> self_paused q" "self_source q = None" "\<not> 0 < self_delay_samples q"
    by blast
  then show ?thesis
  proof cases
    case p
    with z [of n] show ?thesis
      by (auto simp: pop_buffer_segment_def split: sum.splits)
  next
    case s
    with g show ?thesis
      by (simp add: pop_buffer_segment_def)
  next
    case d
    with z [of "min (self_delay_samples q) n"] show ?thesis
      by (auto simp: pop_buffer_segment_def Let_def split: sum.splits)
  next
    case t
    with next_trial_queue_empty [of q dec] show ?thesis
      by (auto simp: pop_buffer_segment_def split: sum.splits)
  qed
qed


lemma iterations_loop:
  "iterations dec a b \<Longrightarrow>
     pop_buffer_loop (fst a) (fst (snd a)) dec (snd (snd a))
       = pop_buffer_loop (fst b) (fst (snd b)) dec (snd (snd b))"
proof (induction rule: iterations.induct)
  case start
  show ?case by simp
next
  case (iteration q samples waveforms waveform q')
  have "pop_buffer_loop q samples dec waveforms =
      pop_buffer_loop (q'\<lparr>self_samples := self_samples q' + int (length waveform)\<rparr>)
        (samples - int (length waveform)) dec (waveforms @ [waveform])"
    using iteration.hyps(2,3) by (subst pop_buffer_loop.simps) simp
  with iteration.IH show ?case by simp
qed

lemma iterations_total:
  "iterations dec a b \<Longrightarrow>
     fst (snd b) + int (length (concat (snd (snd b))))
       = fst (snd a) + int (length (concat (snd (snd a))))"
  by (induction rule: iterations.induct) auto

lemma pop_buffer_loop_queue_empty:
  assumes "0 < m" "pop_buffer_segment q m dec = Inl QueueEmptyError"
  shows "pop_buffer_loop q m dec ws =
    Some (Inr (ws @ [replicate (nat m) 0],
               q\<lparr>self_empty := True, self_samples := self_samples q + m\<rparr>))"
proof -
  have t: "try_pop_buffer q m dec = Inr (replicate (nat m) 0, q\<lparr>self_empty := True\<rparr>)"
    using assms by (simp add: try_pop_buffer_def zeros_def)
  have "pop_buffer_loop q m dec ws =
      pop_buffer_loop (q\<lparr>self_empty := True, self_samples := self_samples q + m\<rparr>) 0 dec
        (ws @ [replicate (nat m) 0])"
    using assms(1) t by (subst pop_buffer_loop.simps) simp
  also have "\<dots> = Some (Inr (ws @ [replicate (nat m) 0],
               q\<lparr>self_empty := True, self_samples := self_samples q + m\<rparr>))"
    by (subst pop_buffer_loop.simps) simp
  finally show ?thesis .
qed

text \<open>
  Claim C5. \<^verbatim>\<open>pop_buffer\<close> never raises \<^verbatim>\<open>QueueEmptyError\<close>. A segment raises it exactly
  when the queue is not paused, has no source and no delay left, and \<^verbatim>\<open>next_key\<close> raises
  it. When that happens in a call \<^verbatim>\<open>pop_buffer(n)\<close>, in a loop state with \<open>m\<close> samples still
  to produce and the waveforms \<open>ws\<close> collected, the call returns what was collected followed
  by \<open>m\<close> zeros, which are \<open>n\<close> samples in all, and leaves \<^verbatim>\<open>_empty\<close> true, so that
  \<^verbatim>\<open>is_empty()\<close> is true.
\<close>

theorem pop_buffer_queue_empty_padding:
  "pop_buffer q n dec \<noteq> Some (Inl QueueEmptyError)
   \<and> ((pop_buffer_segment q1 m dec = Inl QueueEmptyError) =
        (\<not> self_paused q1 \<and> self_source q1 = None \<and> \<not> 0 < self_delay_samples q1 \<and>
         next_key q1 = Inl QueueEmptyError))
   \<and> (iterations dec (q, n, []) (q1, m, ws) \<and> 0 < m \<and>
        pop_buffer_segment q1 m dec = Inl QueueEmptyError \<longrightarrow>
          pop_buffer q n dec =
            Some (Inr (concat ws @ replicate (nat m) 0,
                       q1\<lparr>self_empty := True, self_samples := self_samples q1 + m\<rparr>))
        \<and> int (length (concat ws @ replicate (nat m) 0)) = n
        \<and> is_empty (q1\<lparr>self_empty := True, self_samples := self_samples q1 + m\<rparr>))"
proof (intro conjI impI)
  show "pop_buffer q n dec \<noteq> Some (Inl QueueEmptyError)"
  proof
    assume a: "pop_buffer q n dec = Some (Inl QueueEmptyError)"
    show False
    proof (cases "pop_buffer_loop q n dec []")
      case None
      with a show False by (simp add: pop_buffer_def)
    next
      case (Some y)
      from pop_buffer_loop_not_empty_error [OF Some] a Some show False
        by (auto simp: pop_buffer_def np_concatenate_def split: sum.splits if_splits)
    qed
  qed
next
  show "(pop_buffer_segment q1 m dec = Inl QueueEmptyError) =
        (\<not> self_paused q1 \<and> self_source q1 = None \<and> \<not> 0 < self_delay_samples q1 \<and>
         next_key q1 = Inl QueueEmptyError)"
    by (rule pop_buffer_segment_queue_empty)
next
  assume h: "iterations dec (q, n, []) (q1, m, ws) \<and> 0 < m \<and>
        pop_buffer_segment q1 m dec = Inl QueueEmptyError"
  from iterations_loop [of dec "(q, n, [])" "(q1, m, ws)"] h
  have "pop_buffer_loop q n dec [] = pop_buffer_loop q1 m dec ws" by simp
  with pop_buffer_loop_queue_empty [of m q1 dec ws] h
  show "pop_buffer q n dec =
            Some (Inr (concat ws @ replicate (nat m) 0,
                       q1\<lparr>self_empty := True, self_samples := self_samples q1 + m\<rparr>))"
    by (simp add: pop_buffer_def np_concatenate_def)
next
  assume h: "iterations dec (q, n, []) (q1, m, ws) \<and> 0 < m \<and>
        pop_buffer_segment q1 m dec = Inl QueueEmptyError"
  from iterations_total [of dec "(q, n, [])" "(q1, m, ws)"] h
  show "int (length (concat ws @ replicate (nat m) 0)) = n" by simp
next
  show "is_empty (q1\<lparr>self_empty := True, self_samples := self_samples q1 + m\<rparr>)"
    by (simp add: is_empty_def)
qed


theorem pop_buffer_queue_empty_padding_witness:
  "iterations True (example_playing, 5, [])
     (example_playing\<lparr>self_source := None, self_samples := 3\<rparr>, 2, [[7, 8, 9]])
   \<and> pop_buffer_segment (example_playing\<lparr>self_source := None, self_samples := 3\<rparr>) 2 True
       = Inl QueueEmptyError
   \<and> pop_buffer example_playing 5 True
       = Some (Inr ([7, 8, 9, 0, 0],
                    example_playing\<lparr>self_source := None, self_empty := True, self_samples := 5\<rparr>))
   \<and> is_empty (example_playing\<lparr>self_source := None, self_empty := True, self_samples := 5\<rparr>)"
proof -
  let ?q1 = "example_playing\<lparr>self_source := None, self_samples := 3\<rparr>"
  have t: "try_pop_buffer example_playing 5 True
             = Inr ([7, 8, 9], example_playing\<lparr>self_source := None\<rparr>)"
    by (simp add: try_pop_buffer_def pop_buffer_segment_def get_samples_waveform_def
        example_playing_def init_def)
  have s: "iterations True (example_playing, 5, []) (example_playing, 5, [])"
    by (rule iterations.start)
  have i: "iterations True (example_playing, 5, []) (?q1, 2, [[7, 8, 9]])"
    using iterations.iteration [OF s _ t]
    by (simp add: example_playing_def init_def)
  have e: "pop_buffer_segment ?q1 2 True = Inl QueueEmptyError"
    by (simp add: pop_buffer_segment_def next_trial_def pop_next_def next_key_def
        example_playing_def init_def)
  have z: "(0 :: int) < 2" by simp
  from pop_buffer_queue_empty_padding [of example_playing 5 True ?q1 2 "[[7, 8, 9]]"] i e z
  have "pop_buffer example_playing 5 True =
      Some (Inr (concat [[7, 8, 9]] @ replicate (nat 2) 0,
                 ?q1\<lparr>self_empty := True, self_samples := self_samples ?q1 + 2\<rparr>))"
    by blast
  then have p: "pop_buffer example_playing 5 True
       = Some (Inr ([7, 8, 9, 0, 0],
                    example_playing\<lparr>self_source := None, self_empty := True, self_samples := 5\<rparr>))"
    by (simp add: numeral_2_eq_2)
  have "is_empty (example_playing\<lparr>self_source := None, self_empty := True, self_samples := 5\<rparr>)"
    by (simp add: is_empty_def)
  with i e p show ?thesis by blast
qed

end
